theory Spec2Isabelle
  imports Main
begin

section \<open>Python values, failures and observable effects\<close>

text \<open>
  The values that travel through \<^verbatim>\<open>kz.py\<close>: employee identifiers, durations, dates and
  what the methods return.
\<close>

datatype pyval = PNone | PInt int | PStr string | PTuple "pyval list"

text \<open>
  A row fetched from the store is a tuple of cells, each an integer or \<^verbatim>\<open>NULL\<close>, which
  reaches Python as \<^verbatim>\<open>None\<close>. Text and floating-point cells are left out of the model.
  \<^verbatim>\<open>fetchone()\<close> yields a row, or \<^verbatim>\<open>None\<close> when there is no row.
\<close>

datatype cell = Null | Num int

fun cell_value :: "cell \<Rightarrow> pyval" where
  "cell_value Null = PNone"
| "cell_value (Num n) = PInt n"

fun fetched_value :: "cell list option \<Rightarrow> pyval" where
  "fetched_value None = PNone"
| "fetched_value (Some row) = PTuple (map cell_value row)"

text \<open>
  What \<^verbatim>\<open>execute\<close> hands back to the manager: either a plain value, which has no
  \<^verbatim>\<open>fetchone\<close>, or a result handle whose \<^verbatim>\<open>fetchone()\<close> yields the given row or none.
\<close>

datatype pyobj = Plain pyval | Cursor "cell list option"

datatype error = NameError | AttributeError | TypeError | ValueError | QueryError

text \<open>
  Effects are recorded in order: a line sent to \<^verbatim>\<open>print\<close> (its arguments), and every
  connection object made and every call on one, tagged with the identity of the
  connection object concerned.
\<close>

datatype event =
    Printed "pyval list"
  | Opened nat
  | Executed nat string "pyval list"
  | Committed nat
  | Closed nat

record world =
  trace :: "event list"
  next_conn :: nat

definition emit :: "event \<Rightarrow> world \<Rightarrow> world" where
  "emit e w = w\<lparr>trace := trace w @ [e]\<rparr>"

section \<open>class Connection, class DbManager\<close>

text \<open>
  What \<^verbatim>\<open>execute\<close> returns, given everything that happened before, the statement text
  and the bound parameters.
\<close>

type_synonym store = "event list \<Rightarrow> string \<Rightarrow> pyval list \<Rightarrow> error + pyobj"

text \<open>
  The class \<^verbatim>\<open>Connection\<close> of the source derives from \<^verbatim>\<open>typing.ContextManager\<close> and
  defines \<^verbatim>\<open>execute\<close>, \<^verbatim>\<open>commit\<close> and \<^verbatim>\<open>close\<close>; its \<^verbatim>\<open>execute\<close> prints and has
  no return statement, so it returns \<^verbatim>\<open>None\<close>. A \<open>connection_class\<close> is that class or
  one that differs from it by further methods in its body and by the value its
  \<^verbatim>\<open>execute\<close> returns; \<open>Connection\<close> is the class of the source, with no further method.
\<close>

record connection_class =
  added_methods :: "string list"
  execute_returns :: store

definition Connection_methods :: "string list" where
  "Connection_methods = [''execute'', ''commit'', ''close'']"

definition Connection :: connection_class where
  "Connection =
     \<lparr>added_methods = [], execute_returns = (\<lambda>history query params. Inr (Plain PNone))\<rparr>"

text \<open>
  \<^verbatim>\<open>typing.ContextManager\<close> stands for the abstract base class of context managers, whose
  \<^verbatim>\<open>__exit__\<close> is abstract. Calling a class that leaves an abstract method unimplemented
  raises \<^verbatim>\<open>TypeError\<close>; otherwise the call makes a new object, distinct from every
  connection object made before.
\<close>

definition ContextManager_abstract :: "string list" where
  "ContextManager_abstract = [''__exit__'']"

definition unimplemented :: "connection_class \<Rightarrow> string list" where
  "unimplemented cls =
     filter (\<lambda>m. m \<notin> set (Connection_methods @ added_methods cls)) ContextManager_abstract"

definition new_Connection :: "connection_class \<Rightarrow> world \<Rightarrow> (error + nat) \<times> world" where
  "new_Connection cls w =
     (if unimplemented cls = []
      then (Inr (next_conn w), (emit (Opened (next_conn w)) w)\<lparr>next_conn := Suc (next_conn w)\<rparr>)
      else (Inl TypeError, w))"

definition Connection_execute ::
  "connection_class \<Rightarrow> nat \<Rightarrow> string \<Rightarrow> pyval list \<Rightarrow> world \<Rightarrow> (error + pyobj) \<times> world" where
  "Connection_execute cls c query params w =
     (let w1 = emit (Executed c query params) w;
          w2 = emit (Printed [PStr ''Executed query'', PStr query, PTuple params]) w1
      in (execute_returns cls (trace w) query params, w2))"

definition Connection_commit :: "nat \<Rightarrow> world \<Rightarrow> world" where
  "Connection_commit c w = emit (Committed c) w"

definition Connection_close :: "nat \<Rightarrow> world \<Rightarrow> world" where
  "Connection_close c w = emit (Closed c) w"

text \<open>\<^verbatim>\<open>DbManager.open_connection\<close> returns \<^verbatim>\<open>Connection()\<close>.\<close>

definition open_connection :: "connection_class \<Rightarrow> world \<Rightarrow> (error + nat) \<times> world" where
  "open_connection cls w = new_Connection cls w"

section \<open>The statements sent to the store\<close>

definition log_sql :: string where
  "log_sql = ''INSERT INTO working_log (employee_id, time) VALUES (?, ?)''"

definition total_sql :: string where
  "total_sql =
     ''SELECT SUM(time_in_seconds)*60*60 FROM working_log WHERE employee_id = ? LIMIT 1''"

text \<open>Adjacent string literals, concatenated as Python concatenates them.\<close>

definition salary_sql :: string where
  "salary_sql =
     ''SELECT X.sum, Y.hour_rate'' @
     ''FROM (SELECT sum(time_in_seconds) as 'sum' FROM working_log '' @
     ''WHERE employee_id = ? and time_in_seconds >= ? and time_in_seconds <= ?'' @
     ''LIMIT 1'' @
     '') as X, (SELECT hour_rate as 'hour_rate' FROM employee_rates WHERE employee_id = ? LIMIT 1) as Y''"

section \<open>Attribute access, unpacking and multiplication\<close>

fun fetchone :: "pyobj \<Rightarrow> error + cell list option" where
  "fetchone (Cursor fetched) = Inr fetched"
| "fetchone (Plain v) = Inl AttributeError"

text \<open>\<^verbatim>\<open>total_time, hour_rate = row\<close>\<close>

fun unpack2 :: "cell list option \<Rightarrow> error + cell \<times> cell" where
  "unpack2 None = Inl TypeError"
| "unpack2 (Some [a, b]) = Inr (a, b)"
| "unpack2 (Some row) = Inl ValueError"

fun py_mul :: "cell \<Rightarrow> cell \<Rightarrow> error + pyval" where
  "py_mul (Num a) (Num b) = Inr (PInt (a * b))"
| "py_mul a b = Inl TypeError"

section \<open>First version: the connection is opened by the constructor\<close>

record eager_manager =
  eager_connection :: nat
  eager_employee_id :: pyval

type_synonym 'm outcome = "(error + pyval) \<times> 'm \<times> world"

text \<open>
  \<^verbatim>\<open>__init__\<close> opens the connection first; when that raises, no manager comes to be.
\<close>

definition eager_init ::
  "connection_class \<Rightarrow> pyval \<Rightarrow> world \<Rightarrow> (error + eager_manager) \<times> world" where
  "eager_init cls employee_id w =
     (case open_connection cls w of
        (Inl e, w1) \<Rightarrow> (Inl e, w1)
      | (Inr c, w1) \<Rightarrow> (Inr \<lparr>eager_connection = c, eager_employee_id = employee_id\<rparr>, w1))"

definition eager_log ::
  "connection_class \<Rightarrow> eager_manager \<Rightarrow> pyval \<Rightarrow> world \<Rightarrow> eager_manager outcome" where
  "eager_log cls self time w =
     (let w1 = emit (Printed [PStr ''Logged working hours'', time]) w;
          (r, w2) = Connection_execute cls (eager_connection self) log_sql
                      [eager_employee_id self, time] w1
      in (case r of Inl e \<Rightarrow> Inl e | Inr h \<Rightarrow> Inr PNone, self, w2))"

text \<open>What \<^verbatim>\<open>total\<close> does with the object \<^verbatim>\<open>execute\<close> handed back.\<close>

definition total_result :: "pyobj \<Rightarrow> error + pyval" where
  "total_result h =
     (case fetchone h of
        Inl e \<Rightarrow> Inl e
      | Inr fetched \<Rightarrow> Inr (fetched_value fetched))"

definition eager_total ::
  "connection_class \<Rightarrow> eager_manager \<Rightarrow> world \<Rightarrow> eager_manager outcome" where
  "eager_total cls self w =
     (let (r, w1) = Connection_execute cls (eager_connection self) total_sql
                      [eager_employee_id self] w
      in (case r of Inl e \<Rightarrow> Inl e | Inr h \<Rightarrow> total_result h, self, w1))"

text \<open>What \<^verbatim>\<open>salary\<close> does with the object \<^verbatim>\<open>execute\<close> handed back.\<close>

definition salary_result :: "pyobj \<Rightarrow> error + pyval" where
  "salary_result h =
     (case fetchone h of
        Inl e \<Rightarrow> Inl e
      | Inr fetched \<Rightarrow>
          (case unpack2 fetched of
             Inl e \<Rightarrow> Inl e
           | Inr (total_time, hour_rate) \<Rightarrow> py_mul total_time hour_rate))"

definition eager_salary ::
  "connection_class \<Rightarrow> eager_manager \<Rightarrow> pyval \<Rightarrow> pyval \<Rightarrow> world \<Rightarrow> eager_manager outcome" where
  "eager_salary cls self date_from date_to w =
     (let (r, w1) = Connection_execute cls (eager_connection self) salary_sql
                      [eager_employee_id self, date_from, date_to, eager_employee_id self] w
      in (case r of Inl e \<Rightarrow> Inl e | Inr h \<Rightarrow> salary_result h, self, w1))"

section \<open>Second version: the connection is opened by a decorator\<close>

record lazy_manager =
  lazy_connection :: "nat option"
  lazy_employee_id :: pyval

definition lazy_init :: "pyval \<Rightarrow> lazy_manager" where
  "lazy_init employee_id = \<lparr>lazy_connection = None, lazy_employee_id = employee_id\<rparr>"

text \<open>
  \<^verbatim>\<open>wrapped\<close>: open, run the method, then commit and close. The source has no \<^verbatim>\<open>try\<close>:
  an exception of \<^verbatim>\<open>open_connection\<close> leaves \<^verbatim>\<open>wrapped\<close> before the attribute is
  assigned and before the method runs, and an exception of the method leaves it before
  \<^verbatim>\<open>commit\<close>.
\<close>

definition prepare_connection ::
  "connection_class \<Rightarrow> (lazy_manager \<Rightarrow> world \<Rightarrow> lazy_manager outcome) \<Rightarrow>
   lazy_manager \<Rightarrow> world \<Rightarrow> lazy_manager outcome" where
  "prepare_connection cls func obj w =
     (case open_connection cls w of
        (Inl e, w1) \<Rightarrow> (Inl e, obj, w1)
      | (Inr c, w1) \<Rightarrow>
          (case func (obj\<lparr>lazy_connection := Some c\<rparr>) w1 of
             (Inl e, obj2, w2) \<Rightarrow> (Inl e, obj2, w2)
           | (Inr v, obj2, w2) \<Rightarrow>
               (case lazy_connection obj2 of
                  None \<Rightarrow> (Inl AttributeError, obj2, w2)
                | Some c2 \<Rightarrow> (Inr v, obj2, Connection_close c2 (Connection_commit c2 w2)))))"

text \<open>\<^verbatim>\<open>self.connection.execute(...)\<close>: the attribute may still hold \<^verbatim>\<open>None\<close>.\<close>

definition lazy_execute ::
  "connection_class \<Rightarrow> lazy_manager \<Rightarrow> string \<Rightarrow> pyval list \<Rightarrow> world \<Rightarrow> (error + pyobj) \<times> world" where
  "lazy_execute cls self query params w =
     (case lazy_connection self of
        None \<Rightarrow> (Inl AttributeError, w)
      | Some c \<Rightarrow> Connection_execute cls c query params w)"

definition lazy_log_body ::
  "connection_class \<Rightarrow> pyval \<Rightarrow> lazy_manager \<Rightarrow> world \<Rightarrow> lazy_manager outcome" where
  "lazy_log_body cls time self w =
     (let w1 = emit (Printed [PStr ''Logged working hours'', time]) w;
          (r, w2) = lazy_execute cls self log_sql [lazy_employee_id self, time] w1
      in (case r of Inl e \<Rightarrow> Inl e | Inr h \<Rightarrow> Inr PNone, self, w2))"

definition lazy_total_body :: "connection_class \<Rightarrow> lazy_manager \<Rightarrow> world \<Rightarrow> lazy_manager outcome" where
  "lazy_total_body cls self w =
     (let (r, w1) = lazy_execute cls self total_sql [lazy_employee_id self] w
      in (case r of Inl e \<Rightarrow> Inl e | Inr h \<Rightarrow> total_result h, self, w1))"

definition lazy_salary_body ::
  "connection_class \<Rightarrow> pyval \<Rightarrow> pyval \<Rightarrow> lazy_manager \<Rightarrow> world \<Rightarrow> lazy_manager outcome" where
  "lazy_salary_body cls date_from date_to self w =
     (let (r, w1) = lazy_execute cls self salary_sql
                      [lazy_employee_id self, date_from, date_to, lazy_employee_id self] w
      in (case r of Inl e \<Rightarrow> Inl e | Inr h \<Rightarrow> salary_result h, self, w1))"

definition lazy_log ::
  "connection_class \<Rightarrow> lazy_manager \<Rightarrow> pyval \<Rightarrow> world \<Rightarrow> lazy_manager outcome" where
  "lazy_log cls self time w = prepare_connection cls (lazy_log_body cls time) self w"

definition lazy_total :: "connection_class \<Rightarrow> lazy_manager \<Rightarrow> world \<Rightarrow> lazy_manager outcome" where
  "lazy_total cls self w = prepare_connection cls (lazy_total_body cls) self w"

definition lazy_salary ::
  "connection_class \<Rightarrow> lazy_manager \<Rightarrow> pyval \<Rightarrow> pyval \<Rightarrow> world \<Rightarrow> lazy_manager outcome" where
  "lazy_salary cls self date_from date_to w =
     prepare_connection cls (lazy_salary_body cls date_from date_to) self w"

section \<open>Reading the trace\<close>

definition new_events :: "world \<Rightarrow> world \<Rightarrow> event list" where
  "new_events w w' = drop (length (trace w)) (trace w')"

fun is_execute :: "event \<Rightarrow> bool" where
  "is_execute (Executed c q ps) = True"
| "is_execute e = False"

fun is_open :: "event \<Rightarrow> bool" where
  "is_open (Opened c) = True"
| "is_open e = False"


definition world_of :: "'a \<times> 'b \<times> world \<Rightarrow> world" where
  "world_of out = snd (snd out)"

definition result_of :: "'a \<times> 'b \<times> world \<Rightarrow> 'a" where
  "result_of out = fst out"

definition self_of :: "'a \<times> 'b \<times> world \<Rightarrow> 'b" where
  "self_of out = fst (snd out)"

definition is_ok :: "error + 'a \<Rightarrow> bool" where
  "is_ok r = (case r of Inl e \<Rightarrow> False | Inr v \<Rightarrow> True)"

definition fresh_world :: world where
  "fresh_world = \<lparr>trace = [], next_conn = 0\<rparr>"

section \<open>Reading a statement's text\<close>

text \<open>
  The statements are plain text with positional placeholders. These functions read off
  a text the column each placeholder is bound against: for an \<^verbatim>\<open>INSERT\<close> the columns
  listed in its first parenthesis, otherwise the word in front of each comparison whose
  right-hand side starts with a placeholder.
\<close>

fun split_on :: "char \<Rightarrow> string \<Rightarrow> string list" where
  "split_on d [] = [[]]"
| "split_on d (x # xs) =
     (if x = d then [] # split_on d xs
      else (case split_on d xs of [] \<Rightarrow> [[x]] | r # rs \<Rightarrow> (x # r) # rs))"

definition words_of :: "string \<Rightarrow> string list" where
  "words_of s = filter (\<lambda>t. t \<noteq> []) (split_on CHR '' '' s)"

fun after :: "string \<Rightarrow> string \<Rightarrow> string option" where
  "after p [] = (if p = [] then Some [] else None)"
| "after p (x # xs) =
     (if take (length p) (x # xs) = p then Some (drop (length p) (x # xs)) else after p xs)"

definition insert_columns :: "string \<Rightarrow> string list" where
  "insert_columns q =
     (case after ''('' q of
        None \<Rightarrow> []
      | Some rest \<Rightarrow>
          map (filter (\<lambda>c. c \<noteq> CHR '' ''))
            (split_on CHR '','' (takeWhile (\<lambda>c. c \<noteq> CHR '')'') rest)))"

fun compared_columns :: "string list \<Rightarrow> string list" where
  "compared_columns (a # b # c # rest) =
     (if b \<in> set [''='', ''>='', ''<='', ''<'', ''>''] \<and> take 1 c = ''?'' then [a] else [])
     @ compared_columns (b # c # rest)"
| "compared_columns ts = []"

definition placeholder_columns :: "string \<Rightarrow> string list" where
  "placeholder_columns q =
     (if take 6 q = ''INSERT'' then insert_columns q else compared_columns (words_of q))"

definition summed_column :: "string \<Rightarrow> string option" where
  "summed_column q = map_option (takeWhile (\<lambda>c. c \<noteq> CHR '')'')) (after ''SUM('' q)"

text \<open>
  A statement with its parameters filters by employee \<open>E\<close>: it has as many parameters as
  placeholders, at least one placeholder stands against the column \<^verbatim>\<open>employee_id\<close>, and
  every such placeholder is given \<open>E\<close>.
\<close>

definition employee_bound :: "pyval \<Rightarrow> string \<Rightarrow> pyval list \<Rightarrow> bool" where
  "employee_bound E q ps =
     (length ps = length (placeholder_columns q) \<and>
      ''employee_id'' \<in> set (placeholder_columns q) \<and>
      list_all (\<lambda>(col, v). col = ''employee_id'' \<longrightarrow> v = E) (zip (placeholder_columns q) ps))"

fun binds_employee :: "pyval \<Rightarrow> event \<Rightarrow> bool" where
  "binds_employee E (Executed c q ps) = employee_bound E q ps"
| "binds_employee E ev = True"

text \<open>
  The events a method body may append, for connection \<open>c\<close> and employee \<open>E\<close>: printed
  lines, and statements executed on \<open>c\<close> that filter by \<open>E\<close>.
\<close>

fun body_event :: "nat \<Rightarrow> pyval \<Rightarrow> event \<Rightarrow> bool" where
  "body_event c E (Printed xs) = True"
| "body_event c E (Executed c' q ps) = (c' = c \<and> employee_bound E q ps)"
| "body_event c E ev = False"

section \<open>Sequences of calls on one manager\<close>

datatype call = Log pyval | Total | Salary pyval pyval

fun eager_call ::
  "connection_class \<Rightarrow> eager_manager \<Rightarrow> call \<Rightarrow> world \<Rightarrow> eager_manager outcome" where
  "eager_call cls self (Log time) w = eager_log cls self time w"
| "eager_call cls self Total w = eager_total cls self w"
| "eager_call cls self (Salary date_from date_to) w = eager_salary cls self date_from date_to w"

fun lazy_call ::
  "connection_class \<Rightarrow> lazy_manager \<Rightarrow> call \<Rightarrow> world \<Rightarrow> lazy_manager outcome" where
  "lazy_call cls self (Log time) w = lazy_log cls self time w"
| "lazy_call cls self Total w = lazy_total cls self w"
| "lazy_call cls self (Salary date_from date_to) w = lazy_salary cls self date_from date_to w"

text \<open>
  A caller that makes the calls one after the other on the same manager object and
  carries on after a call that raised.
\<close>

fun eager_run ::
  "connection_class \<Rightarrow> eager_manager \<Rightarrow> call list \<Rightarrow> world \<Rightarrow>
   (error + pyval) list \<times> eager_manager \<times> world" where
  "eager_run cls self [] w = ([], self, w)"
| "eager_run cls self (c # cs) w =
     (case eager_call cls self c w of
        (r, self1, w1) \<Rightarrow>
          (case eager_run cls self1 cs w1 of (rs, self2, w2) \<Rightarrow> (r # rs, self2, w2)))"

fun lazy_run ::
  "connection_class \<Rightarrow> lazy_manager \<Rightarrow> call list \<Rightarrow> world \<Rightarrow>
   (error + pyval) list \<times> lazy_manager \<times> world" where
  "lazy_run cls self [] w = ([], self, w)"
| "lazy_run cls self (c # cs) w =
     (case lazy_call cls self c w of
        (r, self1, w1) \<Rightarrow>
          (case lazy_run cls self1 cs w1 of (rs, self2, w2) \<Rightarrow> (r # rs, self2, w2)))"

definition demo_calls :: "call list" where
  "demo_calls = [Log (PInt 3600), Total, Salary (PStr ''2024-01-01'') (PStr ''2024-01-31'')]"

text \<open>
  A class that differs from \<^verbatim>\<open>Connection\<close> by one more method in its body,
  \<^verbatim>\<open>__exit__\<close>; it is not the class of the source.
\<close>

definition Connection_with_exit :: connection_class where
  "Connection_with_exit = Connection\<lparr>added_methods := [''__exit__'']\<rparr>"

section \<open>The module's top level\<close>

text \<open>
  \<^verbatim>\<open>kz.py\<close> is five top-level statements: four class definitions and one string
  expression. A class definition evaluates its base-class expressions and its body, and
  then binds the class name in the module's namespace. The source imports nothing: the
  name \<^verbatim>\<open>typing\<close> in the bases of \<^verbatim>\<open>Connection\<close> resolves only if the namespace the
  module runs in already holds it. The body of the second \<^verbatim>\<open>WorkingHourManager\<close> applies
  the \<^verbatim>\<open>staticmethod\<close> object \<^verbatim>\<open>prepare_connection\<close> as a decorator, which needs an
  interpreter whose \<^verbatim>\<open>staticmethod\<close> objects are callable. Both are parameters here.
\<close>

datatype class_object =
    Connection_class
  | DbManager_class
  | WorkingHourManager_first
  | WorkingHourManager_second

datatype binding = Class class_object | Provided

type_synonym namespace = "string \<Rightarrow> binding option"

text \<open>
  \<open>ClassDef name bases reads decorates cls\<close>: the global names the base-class expressions
  read, the global names the class body reads, whether the body calls a \<^verbatim>\<open>staticmethod\<close>
  object, and the class object that results.
\<close>

datatype statement =
    ClassDef string "string list" "string list" bool class_object
  | StringExpr

record runtime =
  provided :: "string list"
  callable_staticmethod :: bool

definition kz_module :: "statement list" where
  "kz_module =
     [ClassDef ''Connection'' [''typing''] [] False Connection_class,
      ClassDef ''DbManager'' [] [] False DbManager_class,
      StringExpr,
      ClassDef ''WorkingHourManager'' [] [''DbManager''] False WorkingHourManager_first,
      ClassDef ''WorkingHourManager'' [] [''DbManager''] True WorkingHourManager_second]"

definition initial_namespace :: "runtime \<Rightarrow> namespace" where
  "initial_namespace rt = map_of (map (\<lambda>n. (n, Provided)) (provided rt))"

fun exec_statement :: "runtime \<Rightarrow> statement \<Rightarrow> namespace \<Rightarrow> error + namespace" where
  "exec_statement rt StringExpr ns = Inr ns"
| "exec_statement rt (ClassDef name bases reads decorates cls) ns =
     (if \<not> list_all (\<lambda>n. ns n \<noteq> None) (bases @ reads) then Inl NameError
      else if decorates \<and> \<not> callable_staticmethod rt then Inl TypeError
      else Inr (ns(name \<mapsto> Class cls)))"

fun exec_module :: "runtime \<Rightarrow> statement list \<Rightarrow> namespace \<Rightarrow> error + namespace" where
  "exec_module rt [] ns = Inr ns"
| "exec_module rt (s # ss) ns =
     (case exec_statement rt s ns of
        Inl e \<Rightarrow> Inl e
      | Inr ns' \<Rightarrow> exec_module rt ss ns')"

definition load :: "runtime \<Rightarrow> error + namespace" where
  "load rt = exec_module rt kz_module (initial_namespace rt)"

section \<open>Basic facts about the trace\<close>

lemma new_events_self [simp]: "new_events w w = []"
  by (simp add: new_events_def)

lemma trace_emit [simp]: "trace (emit e w) = trace w @ [e]"
  by (simp add: emit_def)

lemma next_conn_emit [simp]: "next_conn (emit e w) = next_conn w"
  by (simp add: emit_def)

lemma new_events_append: "trace w' = trace w @ evs \<Longrightarrow> new_events w w' = evs"
  by (simp add: new_events_def)

lemma triple_collapse: "x = (fst x, fst (snd x), snd (snd x))"
  by simp

section \<open>Making a connection\<close>

lemma unimplemented_Connection: "unimplemented Connection = [''__exit__'']"
  by (simp add: unimplemented_def Connection_def Connection_methods_def ContextManager_abstract_def)

lemma unimplemented_Connection_with_exit: "unimplemented Connection_with_exit = []"
  by (simp add: unimplemented_def Connection_with_exit_def Connection_def Connection_methods_def
      ContextManager_abstract_def)

lemma open_connection_Connection: "open_connection Connection w = (Inl TypeError, w)"
  by (simp add: open_connection_def new_Connection_def unimplemented_Connection)

lemma open_connection_abstract:
  "unimplemented cls \<noteq> [] \<Longrightarrow> open_connection cls w = (Inl TypeError, w)"
  by (simp add: open_connection_def new_Connection_def)

lemma open_connection_concrete:
  "unimplemented cls = [] \<Longrightarrow>
     open_connection cls w =
       (Inr (next_conn w), (emit (Opened (next_conn w)) w)\<lparr>next_conn := Suc (next_conn w)\<rparr>)"
  by (simp add: open_connection_def new_Connection_def)

lemma prepare_connection_abstract:
  "unimplemented cls \<noteq> [] \<Longrightarrow> prepare_connection cls func obj w = (Inl TypeError, obj, w)"
  by (simp add: prepare_connection_def open_connection_abstract)

lemma lazy_call_abstract:
  "unimplemented cls \<noteq> [] \<Longrightarrow> lazy_call cls self c w = (Inl TypeError, self, w)"
  by (cases c) (simp_all add: lazy_log_def lazy_total_def lazy_salary_def prepare_connection_abstract)

lemma lazy_run_abstract:
  "unimplemented cls \<noteq> [] \<Longrightarrow>
     lazy_run cls self cs w = (replicate (length cs) (Inl TypeError), self, w)"
  by (induction cs) (simp_all add: lazy_call_abstract)

lemma open_connection_with_exit:
  "open_connection Connection_with_exit w =
     (Inr (next_conn w), (emit (Opened (next_conn w)) w)\<lparr>next_conn := Suc (next_conn w)\<rparr>)"
  by (simp add: open_connection_concrete unimplemented_Connection_with_exit)

lemma execute_returns_with_exit:
  "execute_returns Connection_with_exit history query params = Inr (Plain PNone)"
  by (simp add: Connection_with_exit_def Connection_def)

lemma prepare_connection_Connection:
  "prepare_connection Connection func obj w = (Inl TypeError, obj, w)"
  by (simp add: prepare_connection_abstract unimplemented_Connection)

lemma lazy_call_Connection: "lazy_call Connection self c w = (Inl TypeError, self, w)"
  by (simp add: lazy_call_abstract unimplemented_Connection)

lemma lazy_run_Connection:
  "lazy_run Connection self cs w = (replicate (length cs) (Inl TypeError), self, w)"
  by (simp add: lazy_run_abstract unimplemented_Connection)

section \<open>The statements, read\<close>

lemma placeholder_columns_log_sql:
  "placeholder_columns log_sql = [''employee_id'', ''time'']"
  by (simp add: placeholder_columns_def log_sql_def insert_columns_def)

lemma placeholder_columns_total_sql:
  "placeholder_columns total_sql = [''employee_id'']"
  by (simp add: placeholder_columns_def total_sql_def words_of_def)

lemma placeholder_columns_salary_sql:
  "placeholder_columns salary_sql =
     [''employee_id'', ''time_in_seconds'', ''time_in_seconds'', ''employee_id'']"
  by (simp add: placeholder_columns_def salary_sql_def words_of_def)

lemma employee_bound_log: "employee_bound E log_sql [E, t]"
  by (simp add: employee_bound_def placeholder_columns_log_sql)

lemma employee_bound_total: "employee_bound E total_sql [E]"
  by (simp add: employee_bound_def placeholder_columns_total_sql)

lemma employee_bound_salary: "employee_bound E salary_sql [E, d1, d2, E]"
  by (simp add: employee_bound_def placeholder_columns_salary_sql)

section \<open>What one call appends to the trace\<close>

lemma eager_call_step:
  assumes "eager_call cls self c w = (r, self', w')"
  shows "self' = self \<and> next_conn w' = next_conn w \<and>
         (\<exists>evs. trace w' = trace w @ evs \<and>
                list_all (body_event (eager_connection self) (eager_employee_id self)) evs \<and>
                length (filter is_execute evs) = 1)"
proof (cases c)
  case (Log t)
  with assms show ?thesis
    by (auto simp: eager_log_def Connection_execute_def Let_def employee_bound_log)
next
  case Total
  with assms show ?thesis
    by (auto simp: eager_total_def Connection_execute_def Let_def employee_bound_total)
next
  case (Salary d1 d2)
  with assms show ?thesis
    by (auto simp: eager_salary_def Connection_execute_def Let_def employee_bound_salary)
qed

lemma eager_run_steps:
  "eager_run cls self cs w = (rs, self', w') \<Longrightarrow>
     self' = self \<and> next_conn w' = next_conn w \<and>
     (\<exists>evs. trace w' = trace w @ evs \<and>
            list_all (body_event (eager_connection self) (eager_employee_id self)) evs \<and>
            length (filter is_execute evs) = length cs)"
proof (induction cs arbitrary: w rs self' w')
  case Nil
  then show ?case by simp
next
  case (Cons c cs)
  obtain r self1 w1 where c1: "eager_call cls self c w = (r, self1, w1)"
    by (cases "eager_call cls self c w") auto
  obtain rs2 self2 w2 where c2: "eager_run cls self1 cs w1 = (rs2, self2, w2)"
    by (cases "eager_run cls self1 cs w1") auto
  from Cons.prems c1 c2 have eqs: "self' = self2" "w' = w2" by auto
  from eager_call_step [OF c1] obtain evs1 where
    s1: "self1 = self" "next_conn w1 = next_conn w" "trace w1 = trace w @ evs1"
        "list_all (body_event (eager_connection self) (eager_employee_id self)) evs1"
        "length (filter is_execute evs1) = 1"
    by blast
  from Cons.IH [OF c2 [unfolded s1(1)]] obtain evs2 where
    s2: "self2 = self" "next_conn w2 = next_conn w1" "trace w2 = trace w1 @ evs2"
        "list_all (body_event (eager_connection self) (eager_employee_id self)) evs2"
        "length (filter is_execute evs2) = length cs"
    by blast
  have "trace w' = trace w @ (evs1 @ evs2)"
    using eqs s1 s2 by simp
  moreover have "list_all (body_event (eager_connection self) (eager_employee_id self)) (evs1 @ evs2)"
    using s1 s2 by simp
  moreover have "length (filter is_execute (evs1 @ evs2)) = length (c # cs)"
    using s1 s2 by simp
  ultimately show ?case
    using eqs s1 s2 by metis
qed




lemma body_event_binds: "list_all (body_event c E) evs \<Longrightarrow> list_all (binds_employee E) evs"
  by (induction evs) (auto elim: body_event.elims)

lemma lazy_call_step:
  assumes "unimplemented cls = []" and "lazy_call cls self c w = (r, self', w')"
  shows "lazy_employee_id self' = lazy_employee_id self \<and>
         (\<exists>mid. trace w' = trace w @ Opened (next_conn w) # mid @
                    (if is_ok r then [Committed (next_conn w), Closed (next_conn w)] else []) \<and>
                list_all (body_event (next_conn w) (lazy_employee_id self)) mid \<and>
                length (filter is_execute mid) = 1)"
proof (cases c)
  case (Log t)
  with assms show ?thesis
    by (auto simp: lazy_log_def lazy_log_body_def prepare_connection_def lazy_execute_def
        open_connection_concrete Connection_execute_def Connection_commit_def Connection_close_def
        Let_def is_ok_def employee_bound_log split: sum.splits)
next
  case Total
  with assms show ?thesis
    by (auto simp: lazy_total_def lazy_total_body_def prepare_connection_def lazy_execute_def
        open_connection_concrete Connection_execute_def Connection_commit_def Connection_close_def
        Let_def is_ok_def employee_bound_total split: sum.splits)
next
  case (Salary d1 d2)
  with assms show ?thesis
    by (auto simp: lazy_salary_def lazy_salary_body_def prepare_connection_def lazy_execute_def
        open_connection_concrete Connection_execute_def Connection_commit_def Connection_close_def
        Let_def is_ok_def employee_bound_salary split: sum.splits)
qed


lemma lazy_run_steps:
  "lazy_run cls self cs w = (rs, self', w') \<Longrightarrow>
     lazy_employee_id self' = lazy_employee_id self \<and>
     (\<exists>evs. trace w' = trace w @ evs \<and>
            list_all (binds_employee (lazy_employee_id self)) evs)"
proof (cases "unimplemented cls = []")
  case False
  assume "lazy_run cls self cs w = (rs, self', w')"
  with lazy_run_abstract [OF False, of self cs w] show ?thesis by simp
next
  case True
  assume "lazy_run cls self cs w = (rs, self', w')"
  then show ?thesis
  proof (induction cs arbitrary: w rs self self' w')
    case Nil
    then show ?case by simp
  next
    case (Cons c cs)
    obtain r self1 w1 where c1: "lazy_call cls self c w = (r, self1, w1)"
      by (cases "lazy_call cls self c w") auto
    obtain rs2 self2 w2 where c2: "lazy_run cls self1 cs w1 = (rs2, self2, w2)"
      by (cases "lazy_run cls self1 cs w1") auto
    from Cons.prems c1 c2 have eqs: "self' = self2" "w' = w2" by auto
    from lazy_call_step [OF True c1] obtain mid where
      s1: "lazy_employee_id self1 = lazy_employee_id self"
          "trace w1 = trace w @ Opened (next_conn w) # mid @
             (if is_ok r then [Committed (next_conn w), Closed (next_conn w)] else [])"
          "list_all (body_event (next_conn w) (lazy_employee_id self)) mid"
      by blast
    from Cons.IH [OF c2] obtain evs2 where
      s2: "lazy_employee_id self2 = lazy_employee_id self1" "trace w2 = trace w1 @ evs2"
          "list_all (binds_employee (lazy_employee_id self1)) evs2"
      by blast
    let ?evs1 = "Opened (next_conn w) # mid @
                   (if is_ok r then [Committed (next_conn w), Closed (next_conn w)] else [])"
    have "list_all (binds_employee (lazy_employee_id self)) ?evs1"
      using body_event_binds [OF s1(3)] by simp
    then have "list_all (binds_employee (lazy_employee_id self)) (?evs1 @ evs2)"
      using s1(1) s2(3) by simp
    moreover have "trace w' = trace w @ (?evs1 @ evs2)"
      using eqs s1(2) s2(2) by simp
    moreover have "lazy_employee_id self' = lazy_employee_id self"
      using eqs s1(1) s2(1) by simp
    ultimately show ?case by blast
  qed
qed

section \<open>What the methods return\<close>





section \<open>Queries, connections and results\<close>


text \<open>
  C7, on the code. \<^verbatim>\<open>total()\<close> and \<^verbatim>\<open>salary()\<close> of the second version raise
  \<^verbatim>\<open>TypeError\<close> when \<^verbatim>\<open>wrapped\<close> calls \<^verbatim>\<open>open_connection\<close>, because \<^verbatim>\<open>Connection\<close>
  leaves \<^verbatim>\<open>__exit__\<close> unimplemented: each call executes no statement at all, whatever
  the manager and the state of the world. The constructor of the first version raises
  the same error, so no manager of the first version comes to be.
\<close>

theorem no_query_per_call_as_shipped:
  "result_of (lazy_total Connection lm w) = Inl TypeError \<and>
   length (filter is_execute (new_events w (world_of (lazy_total Connection lm w)))) = 0 \<and>
   result_of (lazy_salary Connection lm d1 d2 w) = Inl TypeError \<and>
   length (filter is_execute (new_events w (world_of (lazy_salary Connection lm d1 d2 w)))) = 0 \<and>
   fst (eager_init Connection E w) = Inl TypeError"
  by (simp add: result_of_def world_of_def lazy_total_def lazy_salary_def
      prepare_connection_Connection eager_init_def open_connection_Connection)

text \<open>
  C8, on the code. The constructor of the first version raises \<^verbatim>\<open>TypeError\<close> at
  \<^verbatim>\<open>open_connection\<close> for every employee identifier: it opens no connection and leaves
  no manager whose later calls could reuse one.
\<close>

theorem eager_constructor_raises:
  "eager_init Connection E w = (Inl TypeError, w) \<and>
   filter is_open (new_events w (snd (eager_init Connection E w))) = [] \<and>
   \<not> is_ok (fst (eager_init Connection E w))"
  by (simp add: eager_init_def open_connection_Connection is_ok_def)

text \<open>
  C9. Every statement a manager executes, in the first and in the second version and
  whatever the connection class, is given the manager's own employee identifier at every
  placeholder that stands against the column \<^verbatim>\<open>employee_id\<close>, and has such a
  placeholder; the identifier a manager holds is the one given to the constructor and no
  call changes it.
\<close>

theorem employee_bound_everywhere:
  assumes "eager_run cls em calls w = (rs, em', w')"
    and "lazy_run cls2 lm calls2 v = (rs2, lm', v')"
  shows "lazy_employee_id (lazy_init E) = E \<and>
         (case fst (eager_init cls E w0) of
            Inl e \<Rightarrow> True
          | Inr m \<Rightarrow> eager_employee_id m = E) \<and>
         list_all (binds_employee (eager_employee_id em)) (new_events w w') \<and>
         eager_employee_id em' = eager_employee_id em \<and>
         list_all (binds_employee (lazy_employee_id lm)) (new_events v v') \<and>
         lazy_employee_id lm' = lazy_employee_id lm"
proof -
  from eager_run_steps [OF assms(1)] obtain evs where
    e: "em' = em" "trace w' = trace w @ evs"
       "list_all (body_event (eager_connection em) (eager_employee_id em)) evs"
    by blast
  from lazy_run_steps [OF assms(2)] obtain evs2 where
    l: "lazy_employee_id lm' = lazy_employee_id lm" "trace v' = trace v @ evs2"
       "list_all (binds_employee (lazy_employee_id lm)) evs2"
    by blast
  have "new_events w w' = evs" "new_events v v' = evs2"
    using e(2) l(2) by (simp_all add: new_events_append)
  moreover have "case fst (eager_init cls E w0) of
            Inl e \<Rightarrow> True
          | Inr m \<Rightarrow> eager_employee_id m = E"
    by (simp add: eager_init_def split: prod.splits sum.splits)
  ultimately show ?thesis
    using e(1) l(1,3) body_event_binds [OF e(3)]
    by (simp add: lazy_init_def)
qed

theorem employee_bound_everywhere_witness:
  "result_of (lazy_run Connection (lazy_init (PInt 1)) demo_calls fresh_world) =
     [Inl TypeError, Inl TypeError, Inl TypeError] \<and>
   list_all (binds_employee (PInt 1))
     (new_events fresh_world
        (world_of (lazy_run Connection (lazy_init (PInt 1)) demo_calls fresh_world))) \<and>
   lazy_employee_id (self_of (lazy_run Connection (lazy_init (PInt 1)) demo_calls fresh_world)) =
     PInt 1 \<and>
   list_all (binds_employee (PInt 1))
     (new_events fresh_world
        (world_of (lazy_run Connection_with_exit (lazy_init (PInt 1)) demo_calls fresh_world))) \<and>
   length (filter is_execute (new_events fresh_world
        (world_of (lazy_run Connection_with_exit (lazy_init (PInt 1)) demo_calls fresh_world)))) = 3"
proof -
  let ?m = "\<lparr>eager_connection = 0, eager_employee_id = PInt 1\<rparr>"
  let ?e = "eager_run Connection_with_exit ?m [] fresh_world"
  let ?s = "lazy_run Connection (lazy_init (PInt 1)) demo_calls fresh_world"
  let ?l = "lazy_run Connection_with_exit (lazy_init (PInt 1)) demo_calls fresh_world"
  have a: "?e = (fst ?e, fst (snd ?e), snd (snd ?e))"
    by simp
  have b: "?s = (fst ?s, fst (snd ?s), snd (snd ?s))"
    by simp
  have c: "?l = (fst ?l, fst (snd ?l), snd (snd ?l))"
    by simp
  have s: "?s = ([Inl TypeError, Inl TypeError, Inl TypeError], lazy_init (PInt 1), fresh_world)"
    by (simp add: demo_calls_def lazy_log_def lazy_total_def lazy_salary_def
        prepare_connection_Connection)
  have n: "length (filter is_execute (new_events fresh_world (world_of ?l))) = 3"
    by (simp add: world_of_def lazy_init_def fresh_world_def demo_calls_def
        lazy_log_def lazy_total_def lazy_salary_def prepare_connection_def
        open_connection_with_exit execute_returns_with_exit
        lazy_log_body_def lazy_total_body_def lazy_salary_body_def lazy_execute_def
        Connection_execute_def Connection_commit_def Connection_close_def
        total_result_def salary_result_def new_events_def Let_def)
  show ?thesis
    using employee_bound_everywhere [OF a b] employee_bound_everywhere [OF a c] s n
    by (simp add: world_of_def result_of_def self_of_def lazy_init_def)
qed








text \<open>
  C1, on the code. \<^verbatim>\<open>log\<close> inserts into the columns \<^verbatim>\<open>employee_id\<close> and \<^verbatim>\<open>time\<close>,
  while \<^verbatim>\<open>total\<close> sums the column \<^verbatim>\<open>time_in_seconds\<close>, which the insert does not
  name. And the insert is never executed: \<^verbatim>\<open>log(D)\<close> of the second version raises
  \<^verbatim>\<open>TypeError\<close> at \<^verbatim>\<open>open_connection\<close> before the method runs, leaving the manager and
  the world as they were, and so does the \<^verbatim>\<open>total()\<close> that follows; the constructor of
  the first version raises the same error.
\<close>

theorem log_column_is_not_the_summed_column:
  "insert_columns log_sql = [''employee_id'', ''time''] \<and>
   summed_column total_sql = Some ''time_in_seconds'' \<and>
   ''time_in_seconds'' \<notin> set (insert_columns log_sql) \<and>
   lazy_log Connection (lazy_init E) D w = (Inl TypeError, lazy_init E, w) \<and>
   lazy_total Connection (lazy_init E) w = (Inl TypeError, lazy_init E, w) \<and>
   eager_init Connection E w = (Inl TypeError, w)"
  by (simp add: lazy_log_def lazy_total_def prepare_connection_Connection
      eager_init_def open_connection_Connection
      insert_columns_def summed_column_def log_sql_def total_sql_def)

text \<open>
  C6, on the code. The statement of \<^verbatim>\<open>total\<close> multiplies the sum of \<^verbatim>\<open>time_in_seconds\<close>
  by the literal \<^verbatim>\<open>*60*60\<close>, while \<^verbatim>\<open>log\<close> binds the duration 3600 against the column
  \<^verbatim>\<open>time\<close>. Logging 3600 for employee 1 and then calling \<^verbatim>\<open>total()\<close> raises
  \<^verbatim>\<open>TypeError\<close> twice and executes nothing: \<^verbatim>\<open>total()\<close> does not return \<open>3600 * 3600\<close>.
\<close>

theorem total_after_log_3600:
  "after ''SUM(time_in_seconds)'' total_sql =
     Some ''*60*60 FROM working_log WHERE employee_id = ? LIMIT 1'' \<and>
   zip (placeholder_columns log_sql) [PInt 1, PInt 3600] =
     [(''employee_id'', PInt 1), (''time'', PInt 3600)] \<and>
   summed_column total_sql \<noteq> Some ''time'' \<and>
   lazy_run Connection (lazy_init (PInt 1)) [Log (PInt 3600), Total] fresh_world =
     ([Inl TypeError, Inl TypeError], lazy_init (PInt 1), fresh_world) \<and>
   result_of (lazy_run Connection (lazy_init (PInt 1)) [Log (PInt 3600), Total] fresh_world) \<noteq>
     [Inr PNone, Inr (PInt (3600 * 3600))] \<and>
   fst (eager_init Connection (PInt 1) fresh_world) = Inl TypeError"
  by (simp add: placeholder_columns_log_sql summed_column_def total_sql_def result_of_def
      lazy_log_def lazy_total_def prepare_connection_Connection
      eager_init_def open_connection_Connection)

text \<open>
  C3, on the code. The statement of \<^verbatim>\<open>salary\<close> is built from adjacent string literals
  with no space between \<^verbatim>\<open>Y.hour_rate\<close> and \<^verbatim>\<open>FROM\<close> nor between the last placeholder of
  the range and \<^verbatim>\<open>LIMIT\<close>: the outer select list runs into \<^verbatim>\<open>Y.hour_rateFROM\<close> and no
  word \<^verbatim>\<open>FROM\<close> stands before the first subquery. And the statement is never executed:
  \<^verbatim>\<open>salary\<close> of the second version raises \<^verbatim>\<open>TypeError\<close> at \<^verbatim>\<open>open_connection\<close> for
  every manager and every pair of dates, leaving the manager and the world as they were.
\<close>

theorem salary_statement_runs_together:
  "take 4 (words_of salary_sql) = [''SELECT'', ''X.sum,'', ''Y.hour_rateFROM'', ''(SELECT''] \<and>
   ''FROM'' \<notin> set (take 3 (words_of salary_sql)) \<and>
   ''?LIMIT'' \<in> set (words_of salary_sql) \<and>
   lazy_salary Connection lm d1 d2 w = (Inl TypeError, lm, w)"
  by (simp add: lazy_salary_def prepare_connection_Connection
      words_of_def salary_sql_def)

section \<open>Loading the module\<close>

lemma initial_namespace_Provided:
  "initial_namespace rt n = Some b \<Longrightarrow> b = Provided"
  by (auto simp: initial_namespace_def dest!: map_of_SomeD)

lemma load_without_typing:
  "load \<lparr>provided = [], callable_staticmethod = True\<rparr> = Inl NameError"
  by (simp add: load_def kz_module_def initial_namespace_def)

lemma load_without_callable_staticmethod:
  "load \<lparr>provided = [''typing''], callable_staticmethod = False\<rparr> = Inl TypeError"
  by (simp add: load_def kz_module_def initial_namespace_def)

text \<open>
  C10. When the module has run to its end, the name \<^verbatim>\<open>WorkingHourManager\<close> is bound to
  the second class, no name of the module's namespace is bound to the first class, and
  the first class was bound to that same name until the second definition ran.
\<close>

theorem second_class_rebinds_name:
  assumes "load rt = Inr ns"
  shows "ns ''WorkingHourManager'' = Some (Class WorkingHourManager_second) \<and>
         (\<forall>name. ns name \<noteq> Some (Class WorkingHourManager_first)) \<and>
         (\<exists>ns4. exec_module rt (take 4 kz_module) (initial_namespace rt) = Inr ns4 \<and>
                ns4 ''WorkingHourManager'' = Some (Class WorkingHourManager_first))"
proof -
  have p: "initial_namespace rt n \<noteq> Some (Class WorkingHourManager_first)" for n
    using initial_namespace_Provided [of rt n] by auto
  from assms show ?thesis
    by (auto simp: load_def kz_module_def p split: if_splits)
qed

theorem second_class_rebinds_name_witness:
  "load \<lparr>provided = [''typing''], callable_staticmethod = True\<rparr> \<noteq> Inl NameError \<and>
   load \<lparr>provided = [''typing''], callable_staticmethod = True\<rparr> \<noteq> Inl TypeError \<and>
   projr (load \<lparr>provided = [''typing''], callable_staticmethod = True\<rparr>) ''WorkingHourManager'' =
     Some (Class WorkingHourManager_second)"
proof -
  let ?rt = "\<lparr>provided = [''typing''], callable_staticmethod = True\<rparr>"
  have a: "load ?rt = Inr (projr (load ?rt))"
    by (simp add: load_def kz_module_def initial_namespace_def)
  show ?thesis
    using second_class_rebinds_name [OF a] a
    by (metis sum.distinct(1))
qed

end
